theory Spec2Isabelle
  imports Main "HOL-Library.Word"
begin

unbundle bit_operations_syntax

section \<open>The machine: a 32-bit word-addressed heap region\<close>

text \<open>
  The allocator of \<^verbatim>\<open>assignment2/mm.c\<close> stores pointers in \<^verbatim>\<open>unsigned int\<close>
  cells, so it is a program for a 32-bit target: addresses, \<^verbatim>\<open>size_t\<close> and
  \<^verbatim>\<open>unsigned int\<close> are all 32-bit words whose arithmetic wraps around.

  Memory is a function from byte addresses to the 32-bit word stored there. The
  macros \<^verbatim>\<open>GET\<close> and \<^verbatim>\<open>PUT\<close> are the only accesses; an access is defined
  when the address is 4-byte aligned and the four bytes lie inside the managed region
  \<open>[mem_heap, mem_brk)\<close>, and is a \<open>Fault\<close> otherwise (the C program has undefined
  behaviour there, in practice a segmentation fault).
\<close>

type_synonym addr = "32 word"
type_synonym word32 = "32 word"

datatype fault = Fault

record mstate =
  mem :: "addr \<Rightarrow> word32"
  mem_heap :: addr
  mem_brk :: addr
  mem_max_addr :: addr
  HeapBlocks :: addr
  FreeBlocks :: addr
  out :: "string list"

type_synonym 'a M = "mstate \<Rightarrow> fault + ('a \<times> mstate)"

definition returnM :: "'a \<Rightarrow> 'a M" where
  "returnM x s = Inr (x, s)"

definition bindM :: "'a M \<Rightarrow> ('a \<Rightarrow> 'b M) \<Rightarrow> 'b M" where
  "bindM m f s = (case m s of Inl e \<Rightarrow> Inl e | Inr (x, s') \<Rightarrow> f x s')"

definition valid :: "mstate \<Rightarrow> addr \<Rightarrow> bool" where
  "valid s p \<longleftrightarrow> 4 dvd unat p \<and> unat (mem_heap s) \<le> unat p \<and> unat p + 4 \<le> unat (mem_brk s)"

definition GET :: "addr \<Rightarrow> word32 M" where
  "GET p s = (if valid s p then Inr (mem s p, s) else Inl Fault)"

definition PUT :: "addr \<Rightarrow> word32 \<Rightarrow> unit M" where
  "PUT p val s = (if valid s p then Inr ((), s\<lparr>mem := (mem s)(p := val)\<rparr>) else Inl Fault)"

definition printf :: "string \<Rightarrow> unit M" where
  "printf msg s = Inr ((), s\<lparr>out := out s @ [msg]\<rparr>)"

definition get_FreeBlocks :: "addr M" where
  "get_FreeBlocks s = Inr (FreeBlocks s, s)"

definition set_FreeBlocks :: "addr \<Rightarrow> unit M" where
  "set_FreeBlocks p s = Inr ((), s\<lparr>FreeBlocks := p\<rparr>)"

definition set_HeapBlocks :: "addr \<Rightarrow> unit M" where
  "set_HeapBlocks p s = Inr ((), s\<lparr>HeapBlocks := p\<rparr>)"

subsection \<open>Constants and macros\<close>

definition WSIZE :: word32 where "WSIZE = 4"
definition DSIZE :: word32 where "DSIZE = 8"
definition CHUNKSIZE :: word32 where "CHUNKSIZE = 4096"
definition ClassSize :: nat where "ClassSize = 17"
definition BLOCKSIZE :: word32 where "BLOCKSIZE = 16"
definition NULL :: addr where "NULL = 0"

definition PACK :: "word32 \<Rightarrow> word32 \<Rightarrow> word32" where
  "PACK sz alloc = sz OR alloc"

definition GET_SIZE :: "addr \<Rightarrow> word32 M" where
  "GET_SIZE p = bindM (GET p) (\<lambda>v. returnM (v AND NOT 7))"

definition GET_ALLOC :: "addr \<Rightarrow> word32 M" where
  "GET_ALLOC p = bindM (GET p) (\<lambda>v. returnM (v AND 1))"

definition pAtC :: "addr \<Rightarrow> addr" where
  "pAtC bp = bp + 4"

definition HDRP :: "addr \<Rightarrow> addr" where
  "HDRP bp = bp - 4"

definition FTRP :: "addr \<Rightarrow> addr M" where
  "FTRP bp = bindM (GET_SIZE (HDRP bp)) (\<lambda>sz. returnM (bp + sz - 8))"

definition PREV_BLKP :: "addr \<Rightarrow> addr M" where
  "PREV_BLKP bp = bindM (GET_SIZE (bp - 8)) (\<lambda>sz. returnM (bp - sz))"

definition NEXT_BLKP :: "addr \<Rightarrow> addr M" where
  "NEXT_BLKP bp = bindM (GET_SIZE (HDRP bp)) (\<lambda>sz. returnM (bp + sz))"

subsection \<open>The growth primitive\<close>

text \<open>
  Modelled from the spec: \<^verbatim>\<open>mem_sbrk\<close> of \<^verbatim>\<open>memlib.c\<close>, which is not among the
  sources. The specification describes it as the primitive that extends the managed
  region by a requested byte count and returns the old end address, or a failure
  sentinel when the platform limit is reached. The request is a signed \<^verbatim>\<open>int\<close>; a
  negative request, which the specification says is never issued on purpose, is refused
  as well. The sentinel is \<^verbatim>\<open>(void *)-1\<close>.
\<close>

definition mem_sbrk :: "word32 \<Rightarrow> addr M" where
  "mem_sbrk incr s =
     (if sint incr < 0 \<or> unat (mem_brk s) + unat incr > unat (mem_max_addr s)
      then Inr (- 1, s)
      else Inr (mem_brk s, s\<lparr>mem_brk := mem_brk s + incr\<rparr>))"

subsection \<open>Small helpers of the source\<close>

definition put_head_foot :: "addr \<Rightarrow> word32 \<Rightarrow> word32 \<Rightarrow> unit M" where
  "put_head_foot bp sz t =
     bindM (PUT (HDRP bp) (PACK sz t)) (\<lambda>_.
     bindM (FTRP bp) (\<lambda>f.
     PUT f (PACK sz t)))"

definition put :: "addr \<Rightarrow> word32 \<Rightarrow> unit M" where
  "put bp t = bindM (PUT bp t) (\<lambda>_. PUT (pAtC bp) t)"

text \<open>\<^verbatim>\<open>memset(p, 0, 4 * n)\<close> and \<^verbatim>\<open>memcpy(dst, src, 4 * n)\<close>, one word at a time.\<close>

fun memset0 :: "addr \<Rightarrow> nat \<Rightarrow> unit M" where
  "memset0 p 0 = returnM ()"
| "memset0 p (Suc n) = bindM (PUT p 0) (\<lambda>_. memset0 (p + 4) n)"

fun memcpy :: "addr \<Rightarrow> addr \<Rightarrow> nat \<Rightarrow> unit M" where
  "memcpy dst src 0 = returnM ()"
| "memcpy dst src (Suc n) =
     bindM (GET src) (\<lambda>v.
     bindM (PUT dst v) (\<lambda>_.
     memcpy (dst + 4) (src + 4) n))"

subsection \<open>The size-class function\<close>

text \<open>
  The loop shared by \<^verbatim>\<open>find_fit\<close> and \<^verbatim>\<open>free_list_insert\<close>: halve the size
  while it exceeds \<open>BLOCKSIZE\<close>, counting the halvings (at most \<open>ClassSize - 1\<close>)
  and the bits shifted out.
\<close>

function class_loop :: "word32 \<Rightarrow> nat \<Rightarrow> nat \<Rightarrow> word32 \<times> nat \<times> nat" where
  "class_loop sz sclass sumr =
     (if sz > BLOCKSIZE \<and> sclass < ClassSize - 1
      then class_loop (sz div 2) (sclass + 1) (sumr + unat (sz mod 2))
      else (sz, sclass, sumr))"
  by pat_completeness auto
termination
  by (relation "measure (\<lambda>(sz, sclass, sumr). ClassSize - sclass)") auto

declare class_loop.simps [simp del]

definition size_class_of :: "word32 \<Rightarrow> nat" where
  "size_class_of size0 =
     (case class_loop size0 0 0 of (sz, sclass, sumr) \<Rightarrow>
        if sclass < ClassSize - 1 \<and> sumr > 0 \<and> sz = BLOCKSIZE
        then sclass + 1 else sclass)"

definition class_ptr :: "addr \<Rightarrow> nat \<Rightarrow> addr" where
  "class_ptr fb sclass = fb + 4 * of_nat sclass"

subsection \<open>The segregated free-list index\<close>

definition free_list_insert :: "addr \<Rightarrow> unit M" where
  "free_list_insert bp =
     bindM (GET_SIZE (HDRP bp)) (\<lambda>sz.
     bindM get_FreeBlocks (\<lambda>fb.
     (let sclass_ptr = class_ptr fb (size_class_of sz) in
      bindM (GET sclass_ptr) (\<lambda>h.
        if h = 0 then
          bindM (PUT sclass_ptr bp) (\<lambda>_.
          bindM (PUT bp sclass_ptr) (\<lambda>_.
          PUT (pAtC bp) 0))
        else
          bindM (PUT bp sclass_ptr) (\<lambda>_.
          bindM (GET sclass_ptr) (\<lambda>h1.
          bindM (PUT (pAtC bp) h1) (\<lambda>_.
          bindM (GET sclass_ptr) (\<lambda>h2.
          bindM (PUT h2 bp) (\<lambda>_.
          PUT sclass_ptr bp)))))))))"

definition is_pre :: "addr \<Rightarrow> word32 \<Rightarrow> bool" where
  "is_pre p valP =
     (let f = p + WSIZE * (of_nat ClassSize - 1) in
      if valP > f \<or> valP < p then True
      else if (f - valP) mod WSIZE \<noteq> 0 then True
      else False)"

definition free_list_remove :: "addr \<Rightarrow> unit M" where
  "free_list_remove bp =
     bindM (GET bp) (\<lambda>valP.
     bindM get_FreeBlocks (\<lambda>p.
     (let pre = is_pre p valP in
      bindM (GET (pAtC bp)) (\<lambda>sucP.
      (let suc = (sucP \<noteq> 0) in
       bindM (GET_ALLOC (HDRP bp)) (\<lambda>a.
       if a \<noteq> 0 then printf ''calling free_list_remove on an allocated block''
       else
         bindM
           (if \<not> pre \<and> suc then
              bindM (GET bp) (\<lambda>p1.
              bindM (GET (pAtC bp)) (\<lambda>n1.
              bindM (PUT p1 n1) (\<lambda>_.
              bindM (GET (pAtC bp)) (\<lambda>n2.
              bindM (GET bp) (\<lambda>p2.
              PUT n2 p2)))))
            else if \<not> pre \<and> \<not> suc then
              bindM (GET bp) (\<lambda>p1.
              bindM (GET (pAtC bp)) (\<lambda>n1.
              PUT p1 n1))
            else if pre \<and> suc then
              bindM (GET bp) (\<lambda>p1.
              bindM (GET (pAtC bp)) (\<lambda>n1.
              bindM (PUT (pAtC p1) n1) (\<lambda>_.
              bindM (GET (pAtC bp)) (\<lambda>n2.
              bindM (GET bp) (\<lambda>p2.
              PUT n2 p2)))))
            else
              bindM (GET bp) (\<lambda>p1.
              PUT (pAtC p1) 0))
           (\<lambda>_.
         bindM (PUT bp 0) (\<lambda>_.
         PUT (pAtC bp) 0))))))))"

subsection \<open>Boundary-tag coalescing\<close>

definition coalesce :: "addr \<Rightarrow> addr M" where
  "coalesce bp =
     bindM (PREV_BLKP bp) (\<lambda>pb.
     bindM (FTRP pb) (\<lambda>pf.
     bindM (GET_ALLOC pf) (\<lambda>prev_alloc.
     bindM (NEXT_BLKP bp) (\<lambda>nb.
     bindM (GET_ALLOC (HDRP nb)) (\<lambda>next_alloc.
     bindM (GET_SIZE (HDRP bp)) (\<lambda>sz.
     if prev_alloc \<noteq> 0 \<and> next_alloc \<noteq> 0 then returnM bp
     else if prev_alloc \<noteq> 0 \<and> next_alloc = 0 then
       bindM (NEXT_BLKP bp) (\<lambda>nb1.
       bindM (free_list_remove nb1) (\<lambda>_.
       bindM (NEXT_BLKP bp) (\<lambda>nb2.
       bindM (GET_SIZE (HDRP nb2)) (\<lambda>nsz.
       bindM (PUT (HDRP bp) (PACK (sz + nsz) 0)) (\<lambda>_.
       bindM (FTRP bp) (\<lambda>f.
       bindM (PUT f (PACK (sz + nsz) 0)) (\<lambda>_.
       returnM bp)))))))
     else if prev_alloc = 0 \<and> next_alloc \<noteq> 0 then
       bindM (PREV_BLKP bp) (\<lambda>pb1.
       bindM (free_list_remove pb1) (\<lambda>_.
       bindM (PREV_BLKP bp) (\<lambda>pb2.
       bindM (GET_SIZE (HDRP pb2)) (\<lambda>psz.
       bindM (FTRP bp) (\<lambda>f.
       bindM (PUT f (PACK (sz + psz) 0)) (\<lambda>_.
       bindM (PREV_BLKP bp) (\<lambda>pb3.
       bindM (PUT (HDRP pb3) (PACK (sz + psz) 0)) (\<lambda>_.
       PREV_BLKP bp))))))))
     else
       bindM (PREV_BLKP bp) (\<lambda>pb1.
       bindM (free_list_remove pb1) (\<lambda>_.
       bindM (NEXT_BLKP bp) (\<lambda>nb1.
       bindM (free_list_remove nb1) (\<lambda>_.
       bindM (PREV_BLKP bp) (\<lambda>pb2.
       bindM (GET_SIZE (HDRP pb2)) (\<lambda>psz.
       bindM (NEXT_BLKP bp) (\<lambda>nb2.
       bindM (FTRP nb2) (\<lambda>nf.
       bindM (GET_SIZE nf) (\<lambda>nsz.
       bindM (PREV_BLKP bp) (\<lambda>pb3.
       bindM (PUT (HDRP pb3) (PACK (sz + (psz + nsz)) 0)) (\<lambda>_.
       bindM (NEXT_BLKP bp) (\<lambda>nb3.
       bindM (FTRP nb3) (\<lambda>nf3.
       bindM (PUT nf3 (PACK (sz + (psz + nsz)) 0)) (\<lambda>_.
       PREV_BLKP bp))))))))))))))))))))"

subsection \<open>Heap extension, placement, search\<close>

definition extend_heap :: "word32 \<Rightarrow> addr M" where
  "extend_heap words =
     (let sz = (if words mod 2 \<noteq> 0 then (words + 1) * WSIZE else words * WSIZE) in
      bindM (mem_sbrk sz) (\<lambda>bp.
      if bp = - 1 then returnM NULL
      else
        bindM (PUT (HDRP bp) (PACK sz 0)) (\<lambda>_.
        bindM (FTRP bp) (\<lambda>f.
        bindM (PUT f (PACK sz 0)) (\<lambda>_.
        bindM (NEXT_BLKP bp) (\<lambda>nb.
        bindM (PUT (HDRP nb) (PACK 0 1)) (\<lambda>_.
        bindM (coalesce bp) (\<lambda>bp'.
        bindM (free_list_insert bp') (\<lambda>_.
        returnM bp')))))))))"

definition place :: "addr \<Rightarrow> word32 \<Rightarrow> unit M" where
  "place bp asize =
     bindM (GET_SIZE (HDRP bp)) (\<lambda>csize.
     if csize - asize \<ge> BLOCKSIZE then
       bindM (free_list_remove bp) (\<lambda>_.
       bindM (PUT (HDRP bp) (PACK asize 1)) (\<lambda>_.
       bindM (FTRP bp) (\<lambda>f.
       bindM (PUT f (PACK asize 1)) (\<lambda>_.
       bindM (NEXT_BLKP bp) (\<lambda>bp'.
       bindM (PUT (HDRP bp') (PACK (csize - asize) 0)) (\<lambda>_.
       bindM (FTRP bp') (\<lambda>f'.
       bindM (PUT f' (PACK (csize - asize) 0)) (\<lambda>_.
       bindM (PUT bp' 0) (\<lambda>_.
       bindM (PUT (pAtC bp') 0) (\<lambda>_.
       free_list_insert bp'))))))))))
     else
       bindM (free_list_remove bp) (\<lambda>_.
       bindM (PUT (HDRP bp) (PACK csize 1)) (\<lambda>_.
       bindM (FTRP bp) (\<lambda>f.
       PUT f (PACK csize 1)))))"

text \<open>
  The inner loop of \<^verbatim>\<open>find_fit\<close> follows the next links of one bucket until it meets
  a block that is large enough or the null link. On a cyclic list without a fitting
  block it does not return: that is the value \<open>None\<close>. It only reads the state.
\<close>

partial_function (option) bucket_scan :: "mstate \<Rightarrow> word32 \<Rightarrow> addr \<Rightarrow> (fault + addr) option" where
  "bucket_scan s tmp_s bp =
     (if bp = 0 then Some (Inr 0)
      else case GET_SIZE (HDRP bp) s of
        Inl e \<Rightarrow> Some (Inl e)
      | Inr (sizeB, _) \<Rightarrow>
          if tmp_s \<le> sizeB then Some (Inr bp)
          else (case GET (pAtC bp) s of
                  Inl e \<Rightarrow> Some (Inl e)
                | Inr (nx, _) \<Rightarrow> bucket_scan s tmp_s nx))"

declare bucket_scan.simps [code]

function class_scan :: "mstate \<Rightarrow> word32 \<Rightarrow> nat \<Rightarrow> (fault + addr) option" where
  "class_scan s tmp_s sclass =
     (if sclass < ClassSize then
        (case GET (class_ptr (FreeBlocks s) sclass) s of
           Inl e \<Rightarrow> Some (Inl e)
         | Inr (h, _) \<Rightarrow>
             (case bucket_scan s tmp_s h of
                None \<Rightarrow> None
              | Some (Inl e) \<Rightarrow> Some (Inl e)
              | Some (Inr bp) \<Rightarrow>
                  if bp \<noteq> 0 then Some (Inr bp)
                  else class_scan s tmp_s (sclass + 1)))
      else Some (Inr NULL))"
  by pat_completeness auto
termination
  by (relation "measure (\<lambda>(s, tmp_s, sclass). ClassSize - sclass)") auto

definition find_fit :: "mstate \<Rightarrow> word32 \<Rightarrow> (fault + addr) option" where
  "find_fit s asize = class_scan s asize (size_class_of asize)"

subsection \<open>The public operations\<close>

definition mm_init :: "int M" where
  "mm_init =
     bindM (mem_sbrk (WSIZE * (of_nat ClassSize + 2 + 1))) (\<lambda>hb.
     bindM (set_HeapBlocks hb) (\<lambda>_.
     if hb = - 1 then returnM (- 1)
     else
       bindM (memset0 hb ClassSize) (\<lambda>_.
       bindM (set_FreeBlocks hb) (\<lambda>_.
       (let hb1 = hb + of_nat ClassSize * WSIZE in
        bindM (set_HeapBlocks hb1) (\<lambda>_.
        bindM (PUT hb1 (PACK DSIZE 1)) (\<lambda>_.
        bindM (PUT (hb1 + 1 * WSIZE) (PACK DSIZE 1)) (\<lambda>_.
        bindM (PUT (hb1 + 2 * WSIZE) (PACK 0 1)) (\<lambda>_.
        bindM (set_HeapBlocks (hb1 + 1 * WSIZE)) (\<lambda>_.
        bindM (extend_heap (CHUNKSIZE div WSIZE)) (\<lambda>r.
        if r = NULL then returnM (- 1) else returnM 0)))))))))))"

definition round_size :: "word32 \<Rightarrow> word32" where
  "round_size sz =
     (if sz > DSIZE then DSIZE * ((sz + DSIZE + (DSIZE - 1)) div DSIZE) else 2 * DSIZE)"

definition mm_malloc :: "word32 \<Rightarrow> mstate \<Rightarrow> (fault + (addr \<times> mstate)) option" where
  "mm_malloc sz s =
     (if sz \<le> 0 then Some (Inr (NULL, s))
      else
        (let size2 = round_size sz in
         case find_fit s size2 of
           None \<Rightarrow> None
         | Some (Inl e) \<Rightarrow> Some (Inl e)
         | Some (Inr bp) \<Rightarrow>
             if bp \<noteq> NULL then Some (bindM (place bp size2) (\<lambda>_. returnM bp) s)
             else
               (let newSize = max size2 CHUNKSIZE in
                Some (bindM (extend_heap (newSize div WSIZE)) (\<lambda>bp.
                        if bp = NULL then returnM NULL
                        else bindM (place bp size2) (\<lambda>_. returnM bp)) s))))"

definition mm_free :: "addr \<Rightarrow> unit M" where
  "mm_free bp =
     bindM (GET_SIZE (HDRP bp)) (\<lambda>sz.
     bindM (put_head_foot bp sz 0) (\<lambda>_.
     bindM (put bp 0) (\<lambda>_.
     bindM (coalesce bp) (\<lambda>bp'.
     free_list_insert bp'))))"

definition mm_realloc :: "addr \<Rightarrow> word32 \<Rightarrow> mstate \<Rightarrow> (fault + (addr \<times> mstate)) option" where
  "mm_realloc oldbp sz s =
     (case GET_SIZE (HDRP oldbp) s of
        Inl e \<Rightarrow> Some (Inl e)
      | Inr (old_size, _) \<Rightarrow>
          if oldbp = NULL then mm_malloc sz s
          else if sz = 0 then Some (bindM (mm_free oldbp) (\<lambda>_. returnM NULL) s)
          else
            (let size2 = (if sz \<le> DSIZE then 2 * DSIZE
                          else DSIZE * ((sz + DSIZE + (DSIZE - 1)) div DSIZE)) in
             if size2 = old_size then Some (Inr (oldbp, s))
             else if size2 > old_size then
               (case bindM (NEXT_BLKP oldbp) (\<lambda>nb.
                     bindM (GET_SIZE (HDRP nb)) (\<lambda>next_block.
                     bindM (NEXT_BLKP oldbp) (\<lambda>nb1.
                     bindM (GET_ALLOC (HDRP nb1)) (\<lambda>a.
                     returnM (next_block, a))))) s of
                  Inl e \<Rightarrow> Some (Inl e)
                | Inr ((next_block, a), _) \<Rightarrow>
                    if a = 0 \<and> next_block + old_size \<ge> size2 then
                      Some (bindM (NEXT_BLKP oldbp) (\<lambda>nb.
                            bindM (free_list_remove nb) (\<lambda>_.
                            bindM (put_head_foot oldbp (old_size + next_block) 1) (\<lambda>_.
                            returnM oldbp))) s)
                    else
                      (case mm_malloc sz s of
                         None \<Rightarrow> None
                       | Some (Inl e) \<Rightarrow> Some (Inl e)
                       | Some (Inr (newbp, s1)) \<Rightarrow>
                           Some (bindM (memcpy newbp oldbp (unat (old_size - DSIZE) div 4)) (\<lambda>_.
                                 bindM (mm_free oldbp) (\<lambda>_.
                                 returnM newbp)) s1)))
             else
               Some (bindM
                 (if old_size - size2 \<ge> BLOCKSIZE then
                    bindM (put_head_foot oldbp size2 1) (\<lambda>_.
                    bindM (NEXT_BLKP oldbp) (\<lambda>newbp.
                    bindM (put_head_foot newbp (old_size - size2) 0) (\<lambda>_.
                    bindM (put newbp 0) (\<lambda>_.
                    free_list_insert newbp))))
                  else returnM ())
                 (\<lambda>_. returnM oldbp) s)))"


section \<open>Executing the memory accesses\<close>

lemma bindM_Inr: "m s = Inr (x, s') \<Longrightarrow> bindM m f s = f x s'"
  by (simp add: bindM_def)

lemma bindM_Inl: "m s = Inl e \<Longrightarrow> bindM m f s = Inl e"
  by (simp add: bindM_def)

lemma GET_valid: "valid s p \<Longrightarrow> GET p s = Inr (mem s p, s)"
  by (simp add: GET_def)


lemma GET_SIZE_valid: "valid s p \<Longrightarrow> GET_SIZE p s = Inr (mem s p AND NOT 7, s)"
  by (simp add: GET_SIZE_def bindM_def returnM_def GET_def)

lemma GET_ALLOC_valid: "valid s p \<Longrightarrow> GET_ALLOC p s = Inr (mem s p AND 1, s)"
  by (simp add: GET_ALLOC_def bindM_def returnM_def GET_def)

lemma valid_mem_update [simp]: "valid (s\<lparr>mem := m\<rparr>) p = valid s p"
  by (simp add: valid_def)

lemma valid_out_update [simp]: "valid (s\<lparr>out := m\<rparr>) p = valid s p"
  by (simp add: valid_def)

section \<open>The abstract heap: a sequence of blocks and a family of bucket lists\<close>

text \<open>
  A well-formed heap is described by two abstract values. The block sequence \<open>bs\<close>
  lists, from the prologue block to the last block before the epilogue header, the size
  in bytes and the allocated flag of every block; the block at payload address \<open>b\<close>
  with size \<open>sz\<close> has its header at \<open>b - 4\<close> and its footer at \<open>b + sz - 8\<close>.
  The index \<open>fl\<close> gives for every size class the payload addresses of the blocks
  linked in that bucket, in list order from the bucket head. Addresses are natural
  numbers here; the machine address is \<open>of_nat\<close> of them.
\<close>

type_synonym blk = "nat \<times> bool"

definition total :: "blk list \<Rightarrow> nat" where
  "total bs = sum_list (map fst bs)"

fun layout :: "nat \<Rightarrow> blk list \<Rightarrow> (nat \<times> nat \<times> bool) list" where
  "layout a [] = []"
| "layout a ((sz, al) # bs) = (a, sz, al) # layout (a + sz) bs"

definition tag :: "nat \<Rightarrow> bool \<Rightarrow> word32" where
  "tag sz al = PACK (of_nat sz) (if al then 1 else 0)"

definition blk_ok :: "(addr \<Rightarrow> word32) \<Rightarrow> nat \<times> nat \<times> bool \<Rightarrow> bool" where
  "blk_ok m x = (case x of (b, sz, al) \<Rightarrow>
     8 \<le> sz \<and> 8 dvd sz \<and> m (of_nat (b - 4)) = tag sz al \<and> m (of_nat (b + sz - 8)) = tag sz al)"

text \<open>
  A bucket list in memory: \<open>cur\<close> is the pointer to the first node, \<open>prev\<close> what
  the first node's prev link must hold (the address of the bucket cell for the head of a
  bucket, the previous node otherwise); the next link of the last node is null.
\<close>

fun dl :: "(addr \<Rightarrow> word32) \<Rightarrow> addr \<Rightarrow> addr \<Rightarrow> nat list \<Rightarrow> bool" where
  "dl m prev cur [] = (cur = 0)"
| "dl m prev cur (b # bs) =
     (cur = of_nat b \<and> m (of_nat b) = prev \<and> dl m (of_nat b) (m (of_nat (b + 4))) bs)"

definition bucket :: "(addr \<Rightarrow> word32) \<Rightarrow> nat \<Rightarrow> nat \<Rightarrow> nat list \<Rightarrow> bool" where
  "bucket m lo c xs = dl m (of_nat (lo + 4 * c)) (m (of_nat (lo + 4 * c))) xs"

text \<open>
  The memory invariant. The index array of \<open>ClassSize\<close> cells starts at \<open>lo\<close>; the
  prologue block, of size 8 and allocated, is the first block and has payload address
  \<open>lo + 72\<close>; every other block has at least 16 bytes; the word after the last block is
  the epilogue header \<open>PACK(0, 1)\<close>. Every bucket is a null-terminated doubly linked
  list without repetition whose nodes are free blocks of its own size class.
\<close>

definition wmem :: "(addr \<Rightarrow> word32) \<Rightarrow> nat \<Rightarrow> blk list \<Rightarrow> (nat \<Rightarrow> nat list) \<Rightarrow> bool" where
  "wmem m lo bs fl \<longleftrightarrow>
     8 dvd lo \<and> lo + 72 + total bs < 2 ^ 32 \<and>
     bs \<noteq> [] \<and> hd bs = (8, True) \<and> (\<forall>x \<in> set (tl bs). 16 \<le> fst x) \<and>
     (\<forall>x \<in> set (layout (lo + 72) bs). blk_ok m x) \<and>
     m (of_nat (lo + 72 + total bs - 4)) = 1 \<and>
     (\<forall>c < 17. bucket m lo c (fl c) \<and> distinct (fl c)) \<and>
     (\<forall>c. \<forall>b \<in> set (fl c). c < 17 \<and>
        (\<exists>sz. (b, sz, False) \<in> set (layout (lo + 72) bs) \<and> size_class_of (of_nat sz) = c))"

definition winv :: "mstate \<Rightarrow> blk list \<Rightarrow> (nat \<Rightarrow> nat list) \<Rightarrow> bool" where
  "winv s bs fl \<longleftrightarrow>
     unat (mem_heap s) \<le> unat (FreeBlocks s) \<and>
     unat (mem_brk s) = unat (FreeBlocks s) + 72 + total bs \<and>
     wmem (mem s) (unat (FreeBlocks s)) bs fl"













text \<open>
  Machine addresses are kept in the form \<open>of_nat n\<close>: the conversion is not pushed
  through sums, products and differences.
\<close>

declare of_nat_add [simp del] of_nat_mult [simp del] of_nat_diff [simp del]

subsection \<open>Geometry of the block sequence\<close>

lemma total_simps [simp]:
  "total [] = 0" "total ((sz, al) # bs) = sz + total bs" "total (xs @ ys) = total xs + total ys"
  by (simp_all add: total_def)

lemma layout_append: "layout a (xs @ ys) = layout a xs @ layout (a + total xs) ys"
  by (induction xs arbitrary: a) (auto simp: add.assoc)

lemma layout_bounds: "(b, sz, al) \<in> set (layout a bs) \<Longrightarrow> a \<le> b \<and> b + sz \<le> a + total bs"
  by (induction a bs rule: layout.induct) auto



lemma layout_dvd:
  "(b, sz, al) \<in> set (layout a bs) \<Longrightarrow> 8 dvd a \<Longrightarrow> \<forall>x \<in> set bs. 8 dvd fst x \<Longrightarrow> 8 dvd b"
  by (induction a bs rule: layout.induct) auto

subsection \<open>Boundary tags as words\<close>

lemma seven_mask: "(7::32 word) = mask 3"
  by (simp add: mask_eq_exp_minus_1)

lemma pb_or1_size: "(push_bit 3 (w::32 word) OR 1) AND NOT 7 = push_bit 3 w"
  unfolding seven_mask by (rule bit_eqI) (auto simp: bit_simps)

lemma pb_size: "(push_bit 3 (w::32 word)) AND NOT 7 = push_bit 3 w"
  unfolding seven_mask by (rule bit_eqI) (auto simp: bit_simps)

lemma pb_alloc1: "(push_bit 3 (w::32 word) OR 1) AND 1 = 1"
  by (rule bit_eqI) (auto simp: bit_simps)

lemma pb_alloc0: "(push_bit 3 (w::32 word)) AND 1 = 0"
  by (rule bit_eqI) (auto simp: bit_simps)

lemma of_nat_8: "8 dvd n \<Longrightarrow> (of_nat n :: 32 word) = push_bit 3 (of_nat (n div 8))"
  by (auto simp add: push_bit_eq_mult of_nat_mult)

lemma pb_or1_size': "(push_bit 3 (w::32 word) OR 1) AND - 8 = push_bit 3 w"
  using pb_or1_size [of w] by simp

lemma pb_size': "(push_bit 3 (w::32 word)) AND - 8 = push_bit 3 w"
  using pb_size [of w] by simp

lemma tag_size: "8 dvd sz \<Longrightarrow> tag sz al AND NOT 7 = of_nat sz"
  by (simp add: tag_def PACK_def of_nat_8 pb_or1_size' pb_size')

lemma tag_alloc: "8 dvd sz \<Longrightarrow> tag sz al AND 1 = (if al then 1 else 0)"
  by (simp add: tag_def PACK_def of_nat_8 pb_alloc1 pb_alloc0)


lemma w32_inj: "a < 2 ^ 32 \<Longrightarrow> b < 2 ^ 32 \<Longrightarrow> ((of_nat a :: 32 word) = of_nat b) = (a = b)"
  by (simp add: word_of_nat_eq_iff take_bit_nat_eq_self)

lemma w32_unat: "a < 2 ^ 32 \<Longrightarrow> unat (of_nat a :: 32 word) = a"
  by (simp add: unat_of_nat)

subsection \<open>Doubly linked bucket lists\<close>





subsection \<open>Consequences of the memory invariant\<close>


lemma set_in_layout: "(sz, al) \<in> set bs \<Longrightarrow> \<exists>b. (b, sz, al) \<in> set (layout a bs)"
  by (induction a bs rule: layout.induct) auto

lemma wmem_sizes:
  assumes "wmem m lo bs fl" and "x \<in> set bs"
  shows "8 \<le> fst x \<and> 8 dvd fst x"
proof -
  obtain sz al where x: "x = (sz, al)" by (cases x)
  with assms(2) obtain b where "(b, sz, al) \<in> set (layout (lo + 72) bs)"
    using set_in_layout by blast
  with assms(1) have "blk_ok m (b, sz, al)" by (simp add: wmem_def)
  with x show ?thesis by (simp add: blk_ok_def)
qed

lemma wmem_block:
  assumes w: "wmem m lo bs fl" and b: "(b, sz, al) \<in> set (layout (lo + 72) bs)"
  shows "lo + 72 \<le> b" "b + sz \<le> lo + 72 + total bs" "8 dvd b" "8 \<le> sz" "8 dvd sz"
    "m (of_nat (b - 4)) = tag sz al" "m (of_nat (b + sz - 8)) = tag sz al"
proof -
  from layout_bounds [OF b] show "lo + 72 \<le> b" "b + sz \<le> lo + 72 + total bs" by simp_all
  from w b have "blk_ok m (b, sz, al)" by (simp add: wmem_def)
  then show "8 \<le> sz" "8 dvd sz" "m (of_nat (b - 4)) = tag sz al"
    "m (of_nat (b + sz - 8)) = tag sz al" by (simp_all add: blk_ok_def)
  from w have "8 dvd lo + 72" by (simp add: wmem_def)
  moreover have "\<forall>x \<in> set bs. 8 dvd fst x" using wmem_sizes [OF w] by blast
  ultimately show "8 dvd b" using layout_dvd [OF b] by blast
qed







subsection \<open>Machine addresses of abstract cells\<close>

definition cell_ok :: "mstate \<Rightarrow> nat \<Rightarrow> bool" where
  "cell_ok s n \<longleftrightarrow> 4 dvd n \<and> unat (mem_heap s) \<le> n \<and> n + 4 \<le> unat (mem_brk s)"

lemma cell_ok_mem_update [simp]: "cell_ok (s\<lparr>mem := m\<rparr>) n = cell_ok s n"
  by (simp add: cell_ok_def)

lemma brk_bound: "unat (mem_brk s) < 2 ^ 32"
  using unsigned_less [of "mem_brk s", where 'a = nat] by simp

lemma valid_of_nat: "cell_ok s n \<Longrightarrow> valid s (of_nat n)"
  using brk_bound [of s] by (simp add: cell_ok_def valid_def w32_unat)


lemma HDRP_nat: "4 \<le> x \<Longrightarrow> HDRP (of_nat x) = of_nat (x - 4)"
  by (simp add: HDRP_def of_nat_diff)

lemma w_sub8: "8 \<le> x \<Longrightarrow> (of_nat x :: 32 word) - 8 = of_nat (x - 8)"
  by (simp add: of_nat_diff)

lemma w_sub: "y \<le> x \<Longrightarrow> (of_nat x :: 32 word) - of_nat y = of_nat (x - y)"
  by (simp add: of_nat_diff)

lemma w_add: "(of_nat x :: 32 word) + of_nat y = of_nat (x + y)"
  by (simp add: of_nat_add)



subsection \<open>Rewriting a segment of the block sequence\<close>




subsection \<open>Unlinking a node from its bucket\<close>







subsection \<open>Linking a free block at the head of its bucket\<close>





section \<open>The index operations on a well-formed heap\<close>

lemma winv_D:
  assumes "winv s bs fl"
  shows "FreeBlocks s = of_nat (unat (FreeBlocks s))"
    "wmem (mem s) (unat (FreeBlocks s)) bs fl"
    "\<And>n. 4 dvd n \<Longrightarrow> unat (FreeBlocks s) \<le> n \<Longrightarrow> n + 4 \<le> unat (FreeBlocks s) + 72 + total bs
       \<Longrightarrow> valid s (of_nat n)"
  using assms by (simp_all add: winv_def valid_of_nat cell_ok_def)

lemma upd_other:
  "n < 2 ^ 32 \<Longrightarrow> a < 2 ^ 32 \<Longrightarrow> n \<noteq> a \<Longrightarrow> (m((of_nat a :: 32 word) := v)) (of_nat n) = m (of_nat n)"
  by (simp add: w32_inj)


lemma winv_mem:
  "winv s bs fl \<Longrightarrow> wmem m' (unat (FreeBlocks s)) bs' fl' \<Longrightarrow> total bs' = total bs \<Longrightarrow>
   winv (s\<lparr>mem := m'\<rparr>) bs' fl'"
  by (simp add: winv_def)

lemma tag_size': "8 dvd sz \<Longrightarrow> tag sz al AND - 8 = of_nat sz"
  using tag_size [of sz al] by simp

lemma winv_reads:
  assumes w: "winv s bs fl" and b: "(b, sz, al) \<in> set (layout (unat (FreeBlocks s) + 72) bs)"
  shows "GET_SIZE (HDRP (of_nat b)) s = Inr (of_nat sz, s)"
    "GET_ALLOC (HDRP (of_nat b)) s = Inr (if al then 1 else 0, s)"
    "FTRP (of_nat b) s = Inr (of_nat (b + sz - 8), s)"
    "NEXT_BLKP (of_nat b) s = Inr (of_nat (b + sz), s)"
    "PREV_BLKP (of_nat (b + sz)) s = Inr (of_nat b, s)"
    "GET_ALLOC (of_nat (b + sz - 8)) s = Inr (if al then 1 else 0, s)"
    "GET_SIZE (of_nat (b + sz - 8)) s = Inr (of_nat sz, s)"
proof -
  note D = winv_D [OF w]
  note bl = wmem_block [OF D(2) b]
  have "4 dvd b - 4" "4 dvd b + sz - 8" using bl(3,4,5) by presburger+
  then have v: "valid s (of_nat (b - 4))" "valid s (of_nat (b + sz - 8))"
    using bl by (auto intro!: D(3))
  have h: "HDRP (of_nat b) = of_nat (b - 4)" using bl by (simp add: HDRP_nat)
  show g1: "GET_SIZE (HDRP (of_nat b)) s = Inr (of_nat sz, s)"
    using v bl by (simp add: h GET_SIZE_valid tag_size')
  show "GET_ALLOC (HDRP (of_nat b)) s = Inr (if al then 1 else 0, s)"
    using v bl by (simp add: h GET_ALLOC_valid tag_alloc)
  show "FTRP (of_nat b) s = Inr (of_nat (b + sz - 8), s)"
    using bl by (simp add: FTRP_def bindM_def g1 returnM_def w_add w_sub8)
  show "NEXT_BLKP (of_nat b) s = Inr (of_nat (b + sz), s)"
    by (simp add: NEXT_BLKP_def bindM_def g1 returnM_def w_add)
  show "GET_ALLOC (of_nat (b + sz - 8)) s = Inr (if al then 1 else 0, s)"
    using v bl by (simp add: GET_ALLOC_valid tag_alloc)
  show g2: "GET_SIZE (of_nat (b + sz - 8)) s = Inr (of_nat sz, s)"
    using v bl by (simp add: GET_SIZE_valid tag_size')
  show "PREV_BLKP (of_nat (b + sz)) s = Inr (of_nat b, s)"
    using bl by (simp add: PREV_BLKP_def bindM_def w_sub8 g2 returnM_def w_sub)
qed

lemma winv_epilogue:
  assumes w: "winv s bs fl"
  shows "GET_ALLOC (HDRP (of_nat (unat (FreeBlocks s) + 72 + total bs))) s = Inr (1, s)"
proof -
  note D = winv_D [OF w]
  from D(2) have e: "mem s (of_nat (unat (FreeBlocks s) + 72 + total bs - 4)) = 1" "8 dvd unat (FreeBlocks s)"
    "bs \<noteq> []" "hd bs = (8, True)"
    by (simp_all add: wmem_def)
  then have t8: "8 \<le> total bs" by (cases bs) auto
  have d: "8 dvd total bs"
  proof -
    have "\<forall>x \<in> set bs. 8 dvd fst x" using wmem_sizes [OF D(2)] by blast
    then show ?thesis by (induction bs) auto
  qed
  have "4 dvd unat (FreeBlocks s) + 72 + total bs - 4" using e(2) d t8 by presburger
  then have "valid s (of_nat (unat (FreeBlocks s) + 72 + total bs - 4))"
    using e t8 d by (intro D(3)) auto
  then show ?thesis using e
    by (simp add: HDRP_nat GET_ALLOC_valid)
qed


section \<open>Coalescing and release\<close>






text \<open>The reads at the start of \<^verbatim>\<open>coalesce\<close>, for a block that is not the first one.\<close>

lemma coalesce_reads:
  assumes w: "winv s (pre' @ (ps, pal) # (sz, al) # post) fl"
    and pb: "pb = unat (FreeBlocks s) + 72 + total pre'"
  shows "PREV_BLKP (of_nat (pb + ps)) s = Inr (of_nat pb, s)"
    "FTRP (of_nat pb) s = Inr (of_nat (pb + ps - 8), s)"
    "GET_ALLOC (of_nat (pb + ps - 8)) s = Inr (if pal then 1 else 0, s)"
    "GET_SIZE (HDRP (of_nat pb)) s = Inr (of_nat ps, s)"
    "NEXT_BLKP (of_nat (pb + ps)) s = Inr (of_nat (pb + ps + sz), s)"
    "GET_SIZE (HDRP (of_nat (pb + ps))) s = Inr (of_nat sz, s)"
    "FTRP (of_nat (pb + ps)) s = Inr (of_nat (pb + ps + sz - 8), s)"
    "GET_ALLOC (HDRP (of_nat (pb + ps + sz))) s =
       Inr (if post = [] \<or> snd (hd post) then 1 else 0, s)"
    "post \<noteq> [] \<Longrightarrow> GET_SIZE (HDRP (of_nat (pb + ps + sz))) s = Inr (of_nat (fst (hd post)), s)"
    "post \<noteq> [] \<Longrightarrow> FTRP (of_nat (pb + ps + sz)) s = Inr (of_nat (pb + ps + sz + fst (hd post) - 8), s)"
    "post \<noteq> [] \<Longrightarrow> GET_SIZE (of_nat (pb + ps + sz + fst (hd post) - 8)) s = Inr (of_nat (fst (hd post)), s)"
proof -
  let ?bs = "pre' @ (ps, pal) # (sz, al) # post"
  let ?lo = "unat (FreeBlocks s)"
  have L: "layout (?lo + 72) ?bs = layout (?lo + 72) pre' @ (pb, ps, pal) # (pb + ps, sz, al) # layout (pb + ps + sz) post"
    using pb by (simp add: layout_append)
  then have p: "(pb, ps, pal) \<in> set (layout (?lo + 72) ?bs)"
    and a: "(pb + ps, sz, al) \<in> set (layout (?lo + 72) ?bs)" by simp_all
  note rp = winv_reads [OF w p]
  note ra = winv_reads [OF w a]
  show "PREV_BLKP (of_nat (pb + ps)) s = Inr (of_nat pb, s)" by (rule rp(5))
  show "FTRP (of_nat pb) s = Inr (of_nat (pb + ps - 8), s)" by (rule rp(3))
  show "GET_ALLOC (of_nat (pb + ps - 8)) s = Inr (if pal then 1 else 0, s)" by (rule rp(6))
  show "GET_SIZE (HDRP (of_nat pb)) s = Inr (of_nat ps, s)" by (rule rp(1))
  show "NEXT_BLKP (of_nat (pb + ps)) s = Inr (of_nat (pb + ps + sz), s)" by (rule ra(4))
  show "GET_SIZE (HDRP (of_nat (pb + ps))) s = Inr (of_nat sz, s)" by (rule ra(1))
  show "FTRP (of_nat (pb + ps)) s = Inr (of_nat (pb + ps + sz - 8), s)" by (rule ra(3))
  show "GET_ALLOC (HDRP (of_nat (pb + ps + sz))) s =
       Inr (if post = [] \<or> snd (hd post) then 1 else 0, s)"
  proof (cases post)
    case Nil
    have "pb + ps + sz = ?lo + 72 + total ?bs" using pb Nil by simp
    with winv_epilogue [OF w] Nil show ?thesis by (simp del: total_simps)
  next
    case (Cons n post')
    obtain ns nal where n: "n = (ns, nal)" by (cases n)
    with L Cons have "(pb + ps + sz, ns, nal) \<in> set (layout (?lo + 72) ?bs)" by simp
    from winv_reads(2) [OF w this] Cons n show ?thesis by simp
  qed
  {
    assume "post \<noteq> []"
    then obtain ns nal post' where n: "post = (ns, nal) # post'" by (cases post) auto
    with L have "(pb + ps + sz, ns, nal) \<in> set (layout (?lo + 72) ?bs)" by simp
    note rn = winv_reads [OF w this]
    show "GET_SIZE (HDRP (of_nat (pb + ps + sz))) s = Inr (of_nat (fst (hd post)), s)"
      using rn(1) n by simp
    show "FTRP (of_nat (pb + ps + sz)) s = Inr (of_nat (pb + ps + sz + fst (hd post) - 8), s)"
      using rn(3) n by simp
    show "GET_SIZE (of_nat (pb + ps + sz + fst (hd post) - 8)) s = Inr (of_nat (fst (hd post)), s)"
      using rn(7) n by simp
  }
qed

lemma state_mem_id: "s\<lparr>mem := mem s\<rparr> = s"
  by simp




















subsection \<open>A small heap with two allocated blocks\<close>





section \<open>Release of a block\<close>



section \<open>Coalescing completeness\<close>



section \<open>Removal from the index on an allocated block\<close>

text \<open>
  C9. When \<^verbatim>\<open>free_list_remove\<close> is called on a block whose header has the allocated
  bit set (and whose header and two link words can be read), it prints the warning and
  returns: the memory, and with it every bucket of the index and the header, footer and
  link words of the block, is what it was before the call; only the output has grown by
  the warning.
\<close>

theorem free_list_remove_allocated_unchanged:
  assumes "valid s bp" and "valid s (pAtC bp)" and "valid s (HDRP bp)"
    and "mem s (HDRP bp) AND 1 \<noteq> 0"
  shows "free_list_remove bp s =
           Inr ((), s\<lparr>out := out s @ [''calling free_list_remove on an allocated block'']\<rparr>)"
  using assms
  by (simp add: free_list_remove_def bindM_def GET_valid GET_ALLOC_valid get_FreeBlocks_def
      printf_def Let_def)

definition st_small :: mstate where
  "st_small = \<lparr>mem = (\<lambda>_. 0)(0x104C := 0x11, 0x1058 := 0x11), mem_heap = 0x1000,
     mem_brk = 0x1100, mem_max_addr = 0x100000, HeapBlocks = 0x1048, FreeBlocks = 0x1000,
     out = []\<rparr>"

theorem free_list_remove_allocated_unchanged_witness:
  "valid st_small 0x1050 \<and> valid st_small (pAtC 0x1050) \<and> valid st_small (HDRP 0x1050)
   \<and> mem st_small (HDRP 0x1050) AND 1 \<noteq> 0
   \<and> free_list_remove 0x1050 st_small =
       Inr ((), st_small\<lparr>out := [''calling free_list_remove on an allocated block'']\<rparr>)"
proof -
  have v: "valid st_small 0x1050" "valid st_small (pAtC 0x1050)" "valid st_small (HDRP 0x1050)"
    by (simp_all add: valid_def st_small_def pAtC_def HDRP_def)
  have a: "mem st_small (HDRP 0x1050) AND 1 \<noteq> 0"
    by (simp add: st_small_def HDRP_def)
  from free_list_remove_allocated_unchanged [OF v a] v a show ?thesis
    by (simp add: st_small_def)
qed

section \<open>The header read of \<^verbatim>\<open>mm_realloc\<close>\<close>

lemma not_valid_null_hdr: "\<not> valid s (HDRP NULL)"
proof -
  have "unat (mem_brk s) < 2 ^ 32"
    using unsigned_less [of "mem_brk s", where 'a = nat] by simp
  then show ?thesis
    by (simp add: valid_def HDRP_def NULL_def)
qed

text \<open>
  C10. \<^verbatim>\<open>mm_realloc\<close> reads the header word at \<open>oldbp - 4\<close> before it does anything
  else, in particular before it tests \<open>oldbp\<close> against null: whenever that read is
  not defined the call faults, whatever the pointer and the size are; and for the null
  pointer the read is at address \<open>0xFFFFFFFC\<close>, which lies in no managed region, so
  the call faults in every state.
\<close>

theorem mm_realloc_reads_header_first:
  "(\<not> valid s (HDRP oldbp) \<longrightarrow> mm_realloc oldbp n s = Some (Inl Fault))
   \<and> mm_realloc NULL n s = Some (Inl Fault)"
  using not_valid_null_hdr [of s]
  by (simp add: mm_realloc_def GET_SIZE_def GET_def bindM_def)

theorem mm_realloc_reads_header_first_witness:
  "\<not> valid st_small (HDRP 0x2000) \<and> mm_realloc 0x2000 50 st_small = Some (Inl Fault)
   \<and> mm_realloc NULL 50 st_small = Some (Inl Fault)"
proof -
  have nv: "\<not> valid st_small (HDRP 0x2000)"
    by (simp add: valid_def st_small_def HDRP_def)
  from mm_realloc_reads_header_first [of st_small "0x2000" 50] nv show ?thesis
    by simp
qed

end
